theory Spec2Isabelle
  imports Main "HOL-Library.Sublist" "HOL-Library.Char_ord" "HOL-Library.List_Lexorder"
    "HOL-Library.AList"
begin

section \<open>Strings and scalar values of the host language\<close>

text \<open>
  A JavaScript string is a sequence of UTF-16 code units. Here a string is a list of
  HOL characters, the character with number \<open>n\<close> standing for the code unit \<open>n\<close>: the
  model covers the strings over the code units 0 to 255. On these, \<open>isSpace\<close> is the
  regular expression class \<open>\s\<close> (and the set \<open>trim\<close> removes), \<open>toLowerCase\<close> is
  \<open>String.prototype.toLowerCase\<close>, and the order of \<open>HOL-Library.Char_ord\<close> with
  \<open>HOL-Library.List_Lexorder\<close> is the order of the default \<open>Array.prototype.sort\<close>.
\<close>

definition isSpace :: "char \<Rightarrow> bool" where
  "isSpace c = (c \<in> set [CHR 0x09, CHR 0x0A, CHR 0x0B, CHR 0x0C, CHR 0x0D, CHR 0x20, CHR 0xA0])"

definition isDigit :: "char \<Rightarrow> bool" where
  "isDigit c = (c \<in> set ''0123456789'')"

definition isUpperCase :: "char \<Rightarrow> bool" where
  "isUpperCase c =
     (let n = (of_char c :: nat)
      in (65 \<le> n \<and> n \<le> 90) \<or> (192 \<le> n \<and> n \<le> 222 \<and> n \<noteq> 215))"

text \<open>
  An upper-case letter of this alphabet and its lower-case letter differ by 32, which is
  bit 5, clear in every upper-case letter.
\<close>

fun toLower :: "char \<Rightarrow> char" where
  "toLower (Char b0 b1 b2 b3 b4 b5 b6 b7) =
     (if isUpperCase (Char b0 b1 b2 b3 b4 b5 b6 b7) then Char b0 b1 b2 b3 b4 True b6 b7
      else Char b0 b1 b2 b3 b4 b5 b6 b7)"

definition toLowerCase :: "string \<Rightarrow> string" where
  "toLowerCase s = map toLower s"

definition trim :: "string \<Rightarrow> string" where
  "trim s = rev (dropWhile isSpace (rev (dropWhile isSpace s)))"

definition startsWith :: "string \<Rightarrow> string \<Rightarrow> bool" where
  "startsWith s w = prefix w s"

text \<open>\<open>str_includes s w\<close> is \<open>s.includes(w)\<close>: \<open>w\<close> occurs in \<open>s\<close> as a substring.\<close>

fun str_includes :: "string \<Rightarrow> string \<Rightarrow> bool" where
  "str_includes [] w = (w = [])"
| "str_includes (c # cs) w = (prefix w (c # cs) \<or> str_includes cs w)"

text \<open>
  \<open>splitRuns p s\<close> is \<open>s.split(/[...]+/)\<close> for the character class \<open>p\<close>: the pieces of
  \<open>s\<close> between the maximal runs of characters of the class. A run at the start or at
  the end of \<open>s\<close> leaves an empty piece there, and the empty string gives one empty piece.
\<close>

function splitFrom :: "(char \<Rightarrow> bool) \<Rightarrow> string \<Rightarrow> string \<Rightarrow> string list" where
  "splitFrom p piece [] = [rev piece]"
| "splitFrom p piece (c # cs) =
     (if p c then rev piece # splitFrom p [] (dropWhile p cs)
      else splitFrom p (c # piece) cs)"
  by pat_completeness auto
termination
  by (relation "measure (\<lambda>(p, piece, s). length s)")
    (auto simp: le_imp_less_Suc length_dropWhile_le)

definition splitRuns :: "(char \<Rightarrow> bool) \<Rightarrow> string \<Rightarrow> string list" where
  "splitRuns p s = splitFrom p [] s"

text \<open>\<open>splitOn c s\<close> is \<open>s.split(c)\<close> for a separator of one character.\<close>

fun splitOnFrom :: "char \<Rightarrow> string \<Rightarrow> string \<Rightarrow> string list" where
  "splitOnFrom sep piece [] = [rev piece]"
| "splitOnFrom sep piece (c # cs) =
     (if c = sep then rev piece # splitOnFrom sep [] cs
      else splitOnFrom sep (c # piece) cs)"

definition splitOn :: "char \<Rightarrow> string \<Rightarrow> string list" where
  "splitOn sep s = splitOnFrom sep [] s"

text \<open>\<open>join sep xs\<close> is \<open>xs.join(sep)\<close>.\<close>

fun join :: "string \<Rightarrow> string list \<Rightarrow> string" where
  "join sep [] = []"
| "join sep [x] = x"
| "join sep (x # y # ys) = x @ sep @ join sep (y # ys)"

text \<open>\<open>replaceFirst pat rep s\<close> is \<open>s.replace(pat, rep)\<close> for a non-empty string \<open>pat\<close>.\<close>

fun replaceFirst :: "string \<Rightarrow> string \<Rightarrow> string \<Rightarrow> string" where
  "replaceFirst pat rep [] = []"
| "replaceFirst pat rep (c # cs) =
     (if prefix pat (c # cs) then rep @ drop (length pat) (c # cs)
      else c # replaceFirst pat rep cs)"

text \<open>
  A \<open>Set\<close> keeps its elements in the order of their first insertion: it is a
  duplicate-free list, \<open>setAdd\<close> is \<open>Set.prototype.add\<close> and \<open>newSet xs\<close> is
  \<open>[...new Set(xs)]\<close>.
\<close>

definition setAdd :: "'a \<Rightarrow> 'a list \<Rightarrow> 'a list" where
  "setAdd x xs = (if x \<in> set xs then xs else xs @ [x])"

definition newSet :: "'a list \<Rightarrow> 'a list" where
  "newSet xs = fold setAdd xs []"

text \<open>The decimal numeral of an integer, as \<open>Number.prototype.toString\<close> prints it.\<close>

definition digitChar :: "nat \<Rightarrow> char" where
  "digitChar d = ''0123456789'' ! d"

fun natToString :: "nat \<Rightarrow> string" where
  "natToString n = (if n < 10 then [digitChar n] else natToString (n div 10) @ [digitChar (n mod 10)])"

declare natToString.simps [simp del]

definition intToString :: "int \<Rightarrow> string" where
  "intToString i = (if i < 0 then CHR ''-'' # natToString (nat (- i)) else natToString (nat i))"

text \<open>
  The value of a spreadsheet cell or of a scalar of a JSON document whose type the
  program does not fix (room number, floor, room record number): absent, \<open>null\<close>, an
  integer or a string. \<open>String v\<close> is \<open>String(v)\<close>, which is also \<open>v.toString()\<close> and
  the text of \<open>v\<close> in a template literal where \<open>v\<close> is a number or a string;
  \<open>truthy v\<close> is the test \<open>if (v)\<close>.
\<close>

datatype jsval = Undefined | Null | Num int | Str string

fun String :: "jsval \<Rightarrow> string" where
  "String Undefined = ''undefined''"
| "String Null = ''null''"
| "String (Num i) = intToString i"
| "String (Str s) = s"

fun truthy :: "jsval \<Rightarrow> bool" where
  "truthy Undefined = False"
| "truthy Null = False"
| "truthy (Num i) = (i \<noteq> 0)"
| "truthy (Str s) = (s \<noteq> [])"

text \<open>
  An object used as a dictionary is a map from its keys; a text field that may be
  absent is a string, the empty string standing for the absent value as well (the
  program only tests such fields for truth). \<open>dictGet m k\<close> is \<open>m[k]\<close> where the value is
  tested for truth or defaulted with \<open>||\<close>.
\<close>

definition dictGet :: "(string \<rightharpoonup> string) \<Rightarrow> string \<Rightarrow> string" where
  "dictGet m k = (case m k of None \<Rightarrow> [] | Some v \<Rightarrow> v)"

definition listGet :: "(string \<rightharpoonup> 'a list) \<Rightarrow> string \<Rightarrow> 'a list" where
  "listGet m k = (case m k of None \<Rightarrow> [] | Some v \<Rightarrow> v)"

section \<open>The data model\<close>

text \<open>A row of a room file, and the room record made of it (\<open>{...row, id, ...}\<close>).\<close>

record row =
  rmnbr :: jsval
  floor :: jsval
  rmrecnbr :: jsval
  bld_descrshort :: string
  rmtyp_descrshort :: string
  rmsubtyp_descrshort :: string
  dept_descr :: string

record room = row +
  room_id :: nat
  typeFull :: string
  tags :: "string list"
  mgisLink :: string
  building :: string

record richtag =
  name :: string
  tagtype :: string
  description :: string
  link :: string
  contact :: string
  imageUrl :: string
  color :: string

record filters =
  filterBuilding :: string
  filterFloor :: string
  filterTags :: "string list"

record state =
  processedData :: "room list"
  customTags :: "string \<rightharpoonup> richtag list"
  staffTags :: "string \<rightharpoonup> string list"
  customAbbreviationMappings :: "string \<rightharpoonup> string"
  unmappedAbbreviations :: "string \<rightharpoonup> nat"
  buildingColors :: "(string \<times> string) list"
  availableBuildings :: "string list"
  availableFloors :: "string list"
  availableTags :: "string list"
  activeFilters :: filters
  searchQuery :: string
  currentViewMode :: string
  resultsPerPage :: nat
  currentPage :: nat
  currentFilteredData :: "room list"
  autocompleteItems :: "string list"
  loadedFiles :: "(string \<times> string \<times> string) list"
  errors :: "string list"

section \<open>The unified tags of a room\<close>

definition wordsLonger :: "nat \<Rightarrow> (char \<Rightarrow> bool) \<Rightarrow> string \<Rightarrow> string list" where
  "wordsLonger n p s = filter (\<lambda>word. length word > n) (splitRuns p s)"

definition isSpaceHyphenSlash :: "char \<Rightarrow> bool" where
  "isSpaceHyphenSlash c = (isSpace c \<or> c = CHR ''-'' \<or> c = CHR ''/'')"

definition isSpaceHyphen :: "char \<Rightarrow> bool" where
  "isSpaceHyphen c = (isSpace c \<or> c = CHR ''-'')"

definition customTagTokens :: "richtag \<Rightarrow> string list" where
  "customTagTokens tagObj =
     (if name tagObj \<noteq> [] then
        [toLowerCase (name tagObj), ''custom:'' @ toLowerCase (name tagObj)]
        @ wordsLonger 1 isSpace (toLowerCase (name tagObj))
      else [])
     @ (if tagtype tagObj \<noteq> [] then [''tagtype:'' @ toLowerCase (tagtype tagObj)] else [])
     @ (if color tagObj \<noteq> [] then [''color:'' @ toLowerCase (color tagObj)] else [])"

definition staffTagTokens :: "string \<Rightarrow> string list" where
  "staffTagTokens staffTag =
     (let person = toLowerCase (replaceFirst ''Staff: '' [] staffTag)
      in [person, ''staff:'' @ person] @ wordsLonger 1 isSpace person)"

definition categoryTokens :: "string \<Rightarrow> string list" where
  "categoryTokens tag =
     [toLowerCase tag, ''category:'' @ toLowerCase tag]
     @ wordsLonger 2 isSpaceHyphen (toLowerCase tag)"

definition createUnifiedTags :: "state \<Rightarrow> room \<Rightarrow> string list" where
  "createUnifiedTags st room = newSet (
     (if building room \<noteq> [] then
        [toLowerCase (building room), ''building:'' @ toLowerCase (building room)]
        @ wordsLonger 1 isSpace (toLowerCase (building room))
      else [])
     @ (if bld_descrshort room \<noteq> [] \<and> bld_descrshort room \<noteq> building room then
        [toLowerCase (bld_descrshort room), ''building:'' @ toLowerCase (bld_descrshort room)]
        @ wordsLonger 1 isSpace (toLowerCase (bld_descrshort room))
      else [])
     @ (if floor room \<noteq> Undefined \<and> floor room \<noteq> Null then
        [''floor:'' @ String (floor room), ''f'' @ String (floor room),
         ''level:'' @ String (floor room), String (floor room)]
      else [])
     @ (if dept_descr room \<noteq> [] then
        [toLowerCase (dept_descr room), ''department:'' @ toLowerCase (dept_descr room)]
        @ wordsLonger 2 isSpace (toLowerCase (dept_descr room))
      else [])
     @ (if typeFull room \<noteq> [] then
        [toLowerCase (typeFull room), ''type:'' @ toLowerCase (typeFull room)]
        @ wordsLonger 2 isSpaceHyphenSlash (toLowerCase (typeFull room))
      else [])
     @ concat (map categoryTokens (tags room))
     @ concat (map customTagTokens (listGet (customTags st) (natToString (room_id room))))
     @ concat (map staffTagTokens (listGet (staffTags st) (natToString (room_id room))))
     @ (if truthy (rmnbr room) then
        [toLowerCase (String (rmnbr room)), ''room:'' @ toLowerCase (String (rmnbr room))]
      else []))"

section \<open>Search\<close>

definition isSpaceComma :: "char \<Rightarrow> bool" where
  "isSpaceComma c = (isSpace c \<or> c = CHR '','')"

definition searchTerms :: "string \<Rightarrow> string list" where
  "searchTerms query =
     filter (\<lambda>t. length t > 0) (map trim (splitRuns isSpaceComma (toLowerCase query)))"

definition startsWithDigit :: "string \<Rightarrow> bool" where
  "startsWithDigit s = (case s of [] \<Rightarrow> False | c # _ \<Rightarrow> isDigit c)"

text \<open>
  The callback of \<open>roomTags.some\<close> in \<open>searchRoomsByTags\<close>: whether \<open>tag\<close> makes
  \<open>searchTerm\<close> match, given all the tags of the room.
\<close>

definition tagMatches :: "string list \<Rightarrow> string \<Rightarrow> string \<Rightarrow> bool" where
  "tagMatches roomTags searchTerm tag =
     (if tag = searchTerm then True
      else if startsWith tag searchTerm \<and> (length searchTerm \<ge> 2 \<or> startsWithDigit searchTerm)
        then True
      else if length searchTerm \<ge> 3 \<and> str_includes tag searchTerm then True
      else if str_includes searchTerm ''-'' \<or> str_includes searchTerm '' '' then
        list_all (\<lambda>word. length word > 1 \<and> list_ex (\<lambda>t. str_includes t word) roomTags)
          (splitRuns isSpaceHyphen searchTerm)
      else False)"

definition termMatches :: "string list \<Rightarrow> string \<Rightarrow> bool" where
  "termMatches roomTags searchTerm = list_ex (tagMatches roomTags searchTerm) roomTags"

definition roomMatches :: "state \<Rightarrow> string list \<Rightarrow> room \<Rightarrow> bool" where
  "roomMatches st terms room = list_all (termMatches (createUnifiedTags st room)) terms"

definition searchRoomsByTags :: "state \<Rightarrow> string \<Rightarrow> room list" where
  "searchRoomsByTags st query =
     (if query = [] \<or> processedData st = [] then processedData st
      else if searchTerms query = [] then processedData st
      else filter (roomMatches st (searchTerms query)) (processedData st))"

text \<open>
  \<open>data_getFilteredData\<close> returns its result and stores it as the current filtered
  view.
\<close>

definition combinedQuery :: "state \<Rightarrow> string" where
  "combinedQuery st =
     join '' '' (filter (\<lambda>s. s \<noteq> []) (searchQuery st # filterTags (activeFilters st)))"

definition data_getFilteredData :: "state \<Rightarrow> room list \<times> state" where
  "data_getFilteredData st =
     (let result = searchRoomsByTags st (searchQuery st);
          result = (if filterBuilding (activeFilters st) \<noteq> []
                    then filter (\<lambda>r. building r = filterBuilding (activeFilters st)) result
                    else result);
          result = (if filterFloor (activeFilters st) \<noteq> []
                    then filter (\<lambda>r. String (floor r) = filterFloor (activeFilters st)) result
                    else result);
          result = (if length (filterTags (activeFilters st)) > 0
                    then searchRoomsByTags st (combinedQuery st)
                    else result)
      in (result, st\<lparr>currentFilteredData := result\<rparr>))"

section \<open>Autocomplete vocabulary and search index\<close>

text \<open>
  The callback of \<open>tags.forEach\<close> in \<open>buildUnifiedAutocomplete\<close>; \<open>take 2 (splitOn ...)\<close>
  is \<open>tag.split(':', 2)\<close>.
\<close>

definition addSuggestion :: "nat \<Rightarrow> string \<Rightarrow> string list \<Rightarrow> string list" where
  "addSuggestion limit tag suggestions =
     (if length suggestions < limit then
        (let added = setAdd tag suggestions
         in if str_includes tag '':'' then
              (case take 2 (splitOn CHR '':'' tag) of
                 [qualifier, value] \<Rightarrow> setAdd value added
               | _ \<Rightarrow> added)
            else added)
      else suggestions)"

text \<open>The callback of \<open>state.processedData.forEach\<close> in \<open>buildUnifiedAutocomplete\<close>.\<close>

definition addRoomSuggestions :: "nat \<Rightarrow> state \<Rightarrow> room \<Rightarrow> string list \<Rightarrow> string list" where
  "addRoomSuggestions limit st room suggestions =
     (if length suggestions \<ge> limit then suggestions
      else
        (let added = fold (addSuggestion limit) (createUnifiedTags st room) suggestions
         in if truthy (rmnbr room) \<and> length added < limit
            then setAdd (String (rmnbr room)) added
            else added))"

definition buildUnifiedAutocomplete :: "state \<Rightarrow> string list" where
  "buildUnifiedAutocomplete st =
     (let limit = 5000
      in sort (fold (addRoomSuggestions limit st) (processedData st) []))"

definition buildAutocompleteList :: "state \<Rightarrow> state" where
  "buildAutocompleteList st = st\<lparr>autocompleteItems := buildUnifiedAutocomplete st\<rparr>"

text \<open>
  \<open>createSearchIndex\<close> also stores an index object of the fuzzy search library in the
  state, which no function of this theory reads; the model keeps the vocabulary only.
\<close>

definition createSearchIndex :: "state \<Rightarrow> state" where
  "createSearchIndex st = buildAutocompleteList st"

section \<open>Merging room and occupant files\<close>

text \<open>
  The tables and functions that the program takes from its other files and from the
  platform are parameters of the model: the built-in abbreviation table, the table of
  full replacements, the tag rules (the pattern of a rule is a test on strings), the
  link and colour functions, the constructor of rich tags, the conversion \<open>Number\<close> of a
  string to a number (\<open>None\<close> is \<open>NaN\<close>), and \<open>JSON.stringify\<close> and \<open>JSON.parse\<close> on session
  documents.
\<close>

record sessionDocument =
  doc_version :: string
  doc_timestamp :: string
  doc_type :: string
  doc_processedData :: "room list option"
  doc_customTags :: "(string \<rightharpoonup> richtag list) option"
  doc_staffTags :: "(string \<rightharpoonup> string list) option"
  doc_buildingColors :: "(string \<times> string) list option"
  doc_activeFilters :: "filters option"
  doc_searchQuery :: string
  doc_currentViewMode :: string
  doc_resultsPerPage :: nat

record env =
  abbreviationMap :: "string \<rightharpoonup> string"
  fullReplacements :: "string \<rightharpoonup> string"
  tagRules :: "((string \<Rightarrow> bool) \<times> string) list"
  generateMgisLink :: "row \<Rightarrow> string"
  assignBuildingColor :: "string \<Rightarrow> nat \<Rightarrow> string"
  createRichTag :: "string \<Rightarrow> string \<Rightarrow> string \<Rightarrow> string \<Rightarrow> string \<Rightarrow> string \<Rightarrow> string \<Rightarrow> richtag"
  Number :: "string \<Rightarrow> int option"
  JSON_stringify :: "sessionDocument \<Rightarrow> string"
  JSON_parse :: "string \<Rightarrow> sessionDocument option"

text \<open>
  \<open>normalizeAbbreviation\<close> updates the counter object it is given; the model returns the
  label together with the updated counter.
\<close>

definition whitespaceOnly :: "string \<Rightarrow> bool" where
  "whitespaceOnly s = list_all isSpace s"

definition normalizeAbbreviation ::
  "env \<Rightarrow> state \<Rightarrow> string \<Rightarrow> (string \<rightharpoonup> nat) \<Rightarrow> string \<times> (string \<rightharpoonup> nat)" where
  "normalizeAbbreviation e st abbr unmapped =
     (if abbr = [] then ([], unmapped)
      else if dictGet (customAbbreviationMappings st) abbr \<noteq> []
        then (dictGet (customAbbreviationMappings st) abbr, unmapped)
      else if dictGet (abbreviationMap e) abbr \<noteq> []
        then (dictGet (abbreviationMap e) abbr, unmapped)
      else if length abbr > 0 \<and> \<not> whitespaceOnly abbr
        then (abbr, unmapped(abbr \<mapsto> (case unmapped abbr of None \<Rightarrow> 0 | Some n \<Rightarrow> n) + 1))
      else (abbr, unmapped))"

definition generateTags :: "env \<Rightarrow> string \<Rightarrow> string \<Rightarrow> string list" where
  "generateTags e roomType department =
     fold (\<lambda>rule tagSet.
             if fst rule roomType \<or> fst rule department then setAdd (snd rule) tagSet else tagSet)
       (tagRules e) []"

text \<open>The local variables of \<open>processRoomData\<close> that its loop over the rows updates.\<close>

record mergeLocals =
  processed :: "room list"
  unmapped :: "string \<rightharpoonup> nat"
  buildings :: "string list"
  floors :: "string list"
  tagsSeen :: "string list"
  uniqueIdCounter :: nat

definition typeFullOf :: "env \<Rightarrow> string \<Rightarrow> string \<Rightarrow> string" where
  "typeFullOf e type sub =
     (let full = (if sub \<noteq> [] \<and> type \<noteq> sub then type @ '' - '' @ sub else type)
      in if dictGet (fullReplacements e) (trim (type @ '' '' @ sub)) \<noteq> []
           then dictGet (fullReplacements e) (trim (type @ '' '' @ sub))
         else if type = sub then type
         else full)"

text \<open>The callback of \<open>data.forEach\<close> in \<open>processRoomData\<close>.\<close>

definition processRow :: "env \<Rightarrow> state \<Rightarrow> row \<Rightarrow> mergeLocals \<Rightarrow> mergeLocals" where
  "processRow e st r loc =
     (if \<not> truthy (rmnbr r) \<or> floor r = Undefined \<or> floor r = Null then loc
      else
        (let bld = (if bld_descrshort r \<noteq> [] then bld_descrshort r else ''Unknown Building'');
             (type, unmapped1) = normalizeAbbreviation e st (rmtyp_descrshort r) (unmapped loc);
             (sub, unmapped2) = normalizeAbbreviation e st (rmsubtyp_descrshort r) unmapped1;
             full = typeFullOf e type sub;
             rowTags = generateTags e full (dept_descr r)
         in loc\<lparr>
              processed := processed loc @
                [\<lparr>rmnbr = rmnbr r, floor = floor r, rmrecnbr = rmrecnbr r,
                  bld_descrshort = bld_descrshort r, rmtyp_descrshort = rmtyp_descrshort r,
                  rmsubtyp_descrshort = rmsubtyp_descrshort r, dept_descr = dept_descr r,
                  room_id = uniqueIdCounter loc, typeFull = full, tags = rowTags,
                  mgisLink = generateMgisLink e r, building = bld\<rparr>],
              unmapped := unmapped2,
              buildings := setAdd bld (buildings loc),
              floors := setAdd (String (floor r)) (floors loc),
              tagsSeen := fold setAdd rowTags (tagsSeen loc),
              uniqueIdCounter := uniqueIdCounter loc + 1\<rparr>))"

text \<open>
  \<open>sortBy cmp\<close> is \<open>Array.prototype.sort\<close> with a comparison function, a stable sort; the
  comparison returns a number, \<open>None\<close> for \<open>NaN\<close>, which the sort reads as 0.
\<close>

fun insertBy :: "('a \<Rightarrow> 'a \<Rightarrow> int option) \<Rightarrow> 'a \<Rightarrow> 'a list \<Rightarrow> 'a list" where
  "insertBy cmp x [] = [x]"
| "insertBy cmp x (y # ys) =
     (if (case cmp x y of None \<Rightarrow> 0 | Some d \<Rightarrow> d) \<le> 0 then x # y # ys
      else y # insertBy cmp x ys)"

definition sortBy :: "('a \<Rightarrow> 'a \<Rightarrow> int option) \<Rightarrow> 'a list \<Rightarrow> 'a list" where
  "sortBy cmp xs = foldr (insertBy cmp) xs []"

definition numericDifference :: "env \<Rightarrow> string \<Rightarrow> string \<Rightarrow> int option" where
  "numericDifference e a b =
     (case (Number e a, Number e b) of (Some x, Some y) \<Rightarrow> Some (x - y) | _ \<Rightarrow> None)"

definition assignColors :: "env \<Rightarrow> string list \<Rightarrow> (string \<times> string) list \<Rightarrow> (string \<times> string) list" where
  "assignColors e buildingsArray colors =
     fold (\<lambda>b cs. if dictGet (map_of cs) b = []
                   then AList.update b (assignBuildingColor e b (length cs)) cs
                   else cs)
       buildingsArray colors"

definition processRoomData :: "env \<Rightarrow> row list \<Rightarrow> state \<Rightarrow> state" where
  "processRoomData e data st =
     (let loc = fold (processRow e st) data
                  \<lparr>processed = [], unmapped = Map.empty, buildings = [], floors = [],
                   tagsSeen = [], uniqueIdCounter = length (processedData st)\<rparr>
      in createSearchIndex (st\<lparr>
           buildingColors := assignColors e (buildings loc) (buildingColors st),
           processedData := processedData st @ processed loc,
           unmappedAbbreviations := unmappedAbbreviations st ++ unmapped loc,
           availableBuildings := sort (newSet (availableBuildings st @ buildings loc)),
           availableFloors :=
             sortBy (numericDifference e) (newSet (availableFloors st @ floors loc)),
           availableTags := sort (newSet (availableTags st @ tagsSeen loc)),
           currentPage := 1\<rparr>))"

text \<open>A row of an occupant file, and the callback of \<open>data.forEach\<close> in \<open>processOccupantData\<close>.\<close>

record occupant =
  occ_rmrecnbr :: jsval
  person_name :: string

definition processOccupant :: "occupant \<Rightarrow> state \<Rightarrow> state" where
  "processOccupant occ st =
     (if \<not> truthy (occ_rmrecnbr occ) \<or> person_name occ = [] then st
      else
        (case find (\<lambda>r. String (rmrecnbr r) = String (occ_rmrecnbr occ)) (processedData st) of
           None \<Rightarrow> st
         | Some room \<Rightarrow>
             (let key = natToString (room_id room);
                  staffTag = ''Staff: '' @ trim (person_name occ)
              in if staffTag \<in> set (listGet (staffTags st) key)
                 then st\<lparr>staffTags := (staffTags st)(key \<mapsto> listGet (staffTags st) key)\<rparr>
                 else st\<lparr>staffTags := (staffTags st)(key \<mapsto> listGet (staffTags st) key @ [staffTag])\<rparr>)))"

definition processOccupantData :: "occupant list \<Rightarrow> state \<Rightarrow> state" where
  "processOccupantData data st = createSearchIndex ((fold processOccupant data st)\<lparr>currentPage := 1\<rparr>)"

section \<open>Import of custom tags\<close>

text \<open>
  The document that \<open>JSON.parse\<close> makes of a tags file: the tag lists by room id, in the
  order of \<open>Object.keys\<close>, and the reference block. A tag of the file is a plain string or
  an object with the fields of a rich tag. A value of \<open>customTags\<close> that is no array is
  skipped by the program as the empty array is, and is the empty list here.
\<close>

record roomRef =
  ref_rmnbr :: jsval
  ref_typeFull :: string
  ref_rmrecnbr :: jsval
  ref_building :: string

datatype tagFromFile = TagString string | TagObject richtag

record tagsDocument =
  file_customTags :: "(string \<times> tagFromFile list) list option"
  file_roomReference :: "(string \<rightharpoonup> roomRef) option"

definition addError :: "string \<Rightarrow> state \<Rightarrow> state" where
  "addError message st = st\<lparr>errors := errors st @ [message]\<rparr>"

definition clearErrors :: "state \<Rightarrow> state" where
  "clearErrors st = st\<lparr>errors := []\<rparr>"

text \<open>
  The four lookups of \<open>importCustomTags\<close> that find the room of an entry: \<open>roomRef\<close> is the
  entry of the reference block, if there is one, and \<open>roomIdFromFile\<close> the key of the tag
  list.
\<close>

definition findByRecordNumber :: "room list \<Rightarrow> roomRef \<Rightarrow> room option" where
  "findByRecordNumber rooms ref =
     find (\<lambda>r. String (rmrecnbr r) = String (ref_rmrecnbr ref)) rooms"

definition findById :: "room list \<Rightarrow> string \<Rightarrow> room option" where
  "findById rooms roomIdFromFile = find (\<lambda>r. natToString (room_id r) = roomIdFromFile) rooms"

definition findByNumberAndBuilding :: "room list \<Rightarrow> roomRef \<Rightarrow> room option" where
  "findByNumberAndBuilding rooms ref =
     find (\<lambda>r. rmnbr r = ref_rmnbr ref \<and>
               (bld_descrshort r = ref_building ref \<or> building r = ref_building ref)) rooms"

definition findByNumber :: "room list \<Rightarrow> roomRef \<Rightarrow> room option" where
  "findByNumber rooms ref = find (\<lambda>r. rmnbr r = ref_rmnbr ref) rooms"

definition resolveTargetRoom :: "room list \<Rightarrow> roomRef option \<Rightarrow> string \<Rightarrow> room option" where
  "resolveTargetRoom rooms roomRef roomIdFromFile =
     (let targetRoom =
            (case roomRef of
               Some ref \<Rightarrow>
                 if truthy (ref_rmrecnbr ref) then findByRecordNumber rooms ref else None
             | None \<Rightarrow> None);
          targetRoom =
            (if targetRoom = None then findById rooms roomIdFromFile else targetRoom);
          targetRoom =
            (case roomRef of
               Some ref \<Rightarrow>
                 if targetRoom = None \<and> truthy (ref_rmnbr ref) \<and> ref_building ref \<noteq> []
                 then findByNumberAndBuilding rooms ref
                 else targetRoom
             | None \<Rightarrow> targetRoom);
          targetRoom =
            (case roomRef of
               Some ref \<Rightarrow>
                 if targetRoom = None \<and> truthy (ref_rmnbr ref) then findByNumber rooms ref
                 else targetRoom
             | None \<Rightarrow> targetRoom)
      in targetRoom)"

definition richTagOf :: "env \<Rightarrow> tagFromFile \<Rightarrow> richtag" where
  "richTagOf e tagFromFile =
     (case tagFromFile of
        TagString s \<Rightarrow> createRichTag e s ''simple'' [] [] [] [] ''blue''
      | TagObject t \<Rightarrow>
          createRichTag e (name t) (tagtype t) (description t) (link t) (contact t)
            (imageUrl t) (color t))"

text \<open>
  The state of the import loop: the program state and the two counters. \<open>importTag\<close> is
  the callback of \<open>tagsToImport.forEach\<close> for the room with key \<open>key\<close>, \<open>importEntry\<close> the
  callback of the loop over the keys of the file.
\<close>

record importProgress =
  current :: state
  importedCount :: nat
  skippedCount :: nat

definition importTag :: "env \<Rightarrow> string \<Rightarrow> tagFromFile \<Rightarrow> importProgress \<Rightarrow> importProgress" where
  "importTag e key tagFromFile prog =
     (let richTagObject = richTagOf e tagFromFile;
          existing = listGet (customTags (current prog)) key
      in if \<not> list_ex (\<lambda>existingTag. name existingTag = name richTagObject) existing
         then prog\<lparr>
                current := (current prog)\<lparr>customTags :=
                  (customTags (current prog))(key \<mapsto> existing @ [richTagObject])\<rparr>,
                importedCount := importedCount prog + 1\<rparr>
         else prog)"

definition importEntry ::
  "env \<Rightarrow> (string \<rightharpoonup> roomRef) option \<Rightarrow> string \<times> tagFromFile list \<Rightarrow> importProgress
     \<Rightarrow> importProgress" where
  "importEntry e roomReference entry prog =
     (let roomIdFromFile = fst entry; tagsToImport = snd entry
      in if length tagsToImport = 0 then prog
         else
           (let roomRef = (case roomReference of Some refs \<Rightarrow> refs roomIdFromFile | None \<Rightarrow> None)
            in case resolveTargetRoom (processedData (current prog)) roomRef roomIdFromFile of
                 Some targetRoom \<Rightarrow>
                   (let key = natToString (room_id targetRoom);
                        st = current prog;
                        st = (if customTags st key = None
                              then st\<lparr>customTags := (customTags st)(key \<mapsto> [])\<rparr> else st)
                    in fold (importTag e key) tagsToImport (prog\<lparr>current := st\<rparr>))
               | None \<Rightarrow> prog\<lparr>skippedCount := skippedCount prog + 1\<rparr>))"

definition importCustomTags :: "env \<Rightarrow> tagsDocument \<Rightarrow> state \<Rightarrow> importProgress" where
  "importCustomTags e importData st0 =
     (let st = clearErrors st0
      in case file_customTags importData of
           None \<Rightarrow>
             \<lparr>current = addError ''Tags Import Error: Invalid tags file: missing customTags data.'' st,
              importedCount = 0, skippedCount = 0\<rparr>
         | Some entries \<Rightarrow>
             (let prog = fold (importEntry e (file_roomReference importData)) entries
                           \<lparr>current = st, importedCount = 0, skippedCount = 0\<rparr>;
                  st = (if importedCount prog > 0 then current prog
                        else addError ''No new tags imported/updated.'' (current prog))
              in prog\<lparr>current := createSearchIndex st\<rparr>))"

section \<open>Session export and import\<close>





















section \<open>Example data\<close>

text \<open>
  A room, a state holding it and instances of the parameters, on which the theorems
  below are evaluated. \<open>emptyState\<close> is the state before any file is loaded.
\<close>

definition exampleRoom :: room where
  "exampleRoom =
     \<lparr>rmnbr = Str ''4101'', floor = Num 4, rmrecnbr = Num 77, bld_descrshort = ''Main'',
      rmtyp_descrshort = [], rmsubtyp_descrshort = [], dept_descr = ''Radiology'',
      room_id = 0, typeFull = [], tags = [], mgisLink = [], building = ''Main''\<rparr>"

definition emptyState :: state where
  "emptyState =
     \<lparr>processedData = [], customTags = Map.empty, staffTags = Map.empty,
      customAbbreviationMappings = Map.empty, unmappedAbbreviations = Map.empty,
      buildingColors = [], availableBuildings = [], availableFloors = [], availableTags = [],
      activeFilters = \<lparr>filterBuilding = [], filterFloor = [], filterTags = []\<rparr>,
      searchQuery = [], currentViewMode = ''desktop'', resultsPerPage = 10, currentPage = 1,
      currentFilteredData = [], autocompleteItems = [], loadedFiles = [], errors = []\<rparr>"

definition exampleState :: state where
  "exampleState = emptyState\<lparr>processedData := [exampleRoom]\<rparr>"

definition exampleEnv :: env where
  "exampleEnv =
     \<lparr>abbreviationMap = [''OFF'' \<mapsto> ''Office''],
      fullReplacements = Map.empty,
      tagRules = [(\<lambda>s. str_includes (toLowerCase s) ''lab'', ''Laboratory'')],
      generateMgisLink = (\<lambda>r. []),
      assignBuildingColor = (\<lambda>b i. ''blue''),
      createRichTag = (\<lambda>n t d l c i col.
        \<lparr>name = n, tagtype = t, description = d, link = l, contact = c, imageUrl = i,
         color = col\<rparr>),
      Number = (\<lambda>s. None),
      JSON_stringify = (\<lambda>d. []),
      JSON_parse = (\<lambda>s. None)\<rparr>"

definition exampleRow :: row where
  "exampleRow =
     \<lparr>rmnbr = Str ''4101'', floor = Num 4, rmrecnbr = Num 77, bld_descrshort = ''Main'',
      rmtyp_descrshort = ''XYZ'', rmsubtyp_descrshort = [], dept_descr = ''Radiology''\<rparr>"

text \<open>
  The condition of compound-term matching in the words of the specification: every
  sub-word of the term that is longer than one character occurs in some tag.
\<close>

definition longSubWordsFound :: "string list \<Rightarrow> string \<Rightarrow> bool" where
  "longSubWordsFound roomTags searchTerm =
     list_all (\<lambda>word. length word > 1 \<longrightarrow> list_ex (\<lambda>t. str_includes t word) roomTags)
       (splitRuns isSpaceHyphen searchTerm)"

definition filteredExampleState :: state where
  "filteredExampleState =
     exampleState\<lparr>searchQuery := ''4101'',
       activeFilters := \<lparr>filterBuilding = ''East'', filterFloor = ''9'', filterTags = [''radiology'']\<rparr>\<rparr>"



definition labState :: state where
  "labState =
     exampleState\<lparr>customTags := [''0'' \<mapsto>
       [\<lparr>name = ''lab'', tagtype = ''simple'', description = [], link = [], contact = [],
         imageUrl = [], color = ''blue''\<rparr>]]\<rparr>"


definition labTagsFile :: tagsDocument where
  "labTagsFile = \<lparr>file_customTags = Some [(''0'', [TagString ''Lab''])], file_roomReference = None\<rparr>"

text \<open>
  A dataset on which the vocabulary passes its cap: 2496 rooms of the building
  \<open>Main A\<close> on the floor \<open>G\<close> with the room numbers 0 to 2495, and one more room on the
  floor \<open>B\<close>.
\<close>

definition numberedRoom :: "nat \<Rightarrow> room" where
  "numberedRoom i =
     \<lparr>rmnbr = Str (natToString i), floor = Str ''G'', rmrecnbr = Undefined,
      bld_descrshort = ''Main A'', rmtyp_descrshort = [], rmsubtyp_descrshort = [],
      dept_descr = [], room_id = i, typeFull = [], tags = [], mgisLink = [],
      building = ''Main A''\<rparr>"

definition basementRoom :: room where
  "basementRoom =
     \<lparr>rmnbr = Str ''B1'', floor = Str ''B'', rmrecnbr = Undefined,
      bld_descrshort = ''Main A'', rmtyp_descrshort = [], rmsubtyp_descrshort = [],
      dept_descr = [], room_id = 2496, typeFull = [], tags = [], mgisLink = [],
      building = ''Main A''\<rparr>"

definition overflowState :: state where
  "overflowState = emptyState\<lparr>processedData := map numberedRoom [0 ..< 2496] @ [basementRoom]\<rparr>"

text \<open>
  The vocabulary after the first room of this dataset, without the entries of its room
  number, and the two entries that the room number of each room of floor \<open>G\<close> adds.
\<close>

definition baseSuggestions :: "string list" where
  "baseSuggestions =
     [''main a'', ''building:main a'', ''main'', ''floor:G'', ''G'', ''fG'', ''level:G'']"

definition numberedSuggestions :: "nat \<Rightarrow> string list" where
  "numberedSuggestions i = [natToString i, ''room:'' @ natToString i]"

section \<open>Properties of the string functions\<close>

lemma splitFrom_no_sep:
  "\<forall>c\<in>set t. \<not> p c \<Longrightarrow> splitFrom p piece (t @ rest) = splitFrom p (rev t @ piece) rest"
  by (induction t arbitrary: piece) auto

lemma splitFrom_sep_run:
  assumes "sep \<noteq> []" and "\<forall>c\<in>set sep. p c" and "rest = [] \<or> \<not> p (hd rest)"
  shows "splitFrom p piece (sep @ rest) = rev piece # splitFrom p [] rest"
proof -
  obtain c cs where sep: "sep = c # cs"
    using assms(1) by (cases sep) auto
  have "dropWhile p (cs @ rest) = dropWhile p rest"
    using assms(2) sep by (simp add: dropWhile_append2)
  moreover have "dropWhile p rest = rest"
    using assms(3) by (cases rest) auto
  ultimately show ?thesis
    using assms(2) sep by simp
qed

lemma splitRuns_single:
  "\<forall>c\<in>set t. \<not> p c \<Longrightarrow> splitRuns p t = [t]"
  using splitFrom_no_sep [of t p "[]" "[]"] by (simp add: splitRuns_def)

lemma splitRuns_two:
  assumes "\<forall>c\<in>set t1. \<not> p c" and "\<forall>c\<in>set t2. \<not> p c"
    and "sep \<noteq> []" and "\<forall>c\<in>set sep. p c"
  shows "splitRuns p (t1 @ sep @ t2) = [t1, t2]"
proof -
  have "splitRuns p (t1 @ sep @ t2) = splitFrom p (rev t1) (sep @ t2)"
    using splitFrom_no_sep [OF assms(1), of "[]" "sep @ t2"] by (simp add: splitRuns_def)
  also have "\<dots> = t1 # splitFrom p [] t2"
    using splitFrom_sep_run [OF assms(3,4), of t2 "rev t1"] assms(2) by (cases t2) auto
  also have "splitFrom p [] t2 = [t2]"
    using splitRuns_single [OF assms(2)] by (simp add: splitRuns_def)
  finally show ?thesis .
qed

lemma splitRuns_not_Nil: "splitRuns p s \<noteq> []"
proof -
  have "splitFrom p piece s \<noteq> []" for piece
    by (induction p piece s rule: splitFrom.induct) auto
  then show ?thesis by (simp add: splitRuns_def)
qed

lemma isSpaceComma_toLower [simp]: "isSpaceComma (toLower c) = isSpaceComma c"
  by (cases c) (auto simp: isSpaceComma_def isSpace_def isUpperCase_def)

lemma trim_no_space: "\<forall>c\<in>set t. \<not> isSpace c \<Longrightarrow> trim t = t"
proof -
  assume a: "\<forall>c\<in>set t. \<not> isSpace c"
  have "dropWhile isSpace t = t"
    using a by (cases t) auto
  moreover have "dropWhile isSpace (rev t) = rev t"
    using a by (cases "rev t") (auto simp: rev_eq_Cons_iff)
  ultimately show ?thesis by (simp add: trim_def)
qed

section \<open>Search\<close>

lemma searchTerms_single:
  assumes "t \<noteq> []" and "\<forall>c\<in>set t. \<not> isSpaceComma c"
  shows "searchTerms t = [toLowerCase t]"
proof -
  have n: "\<forall>c\<in>set (toLowerCase t). \<not> isSpaceComma c"
    using assms(2) by (simp add: toLowerCase_def)
  then have "\<forall>c\<in>set (toLowerCase t). \<not> isSpace c"
    by (simp add: isSpaceComma_def)
  then have "trim (toLowerCase t) = toLowerCase t"
    by (rule trim_no_space)
  then show ?thesis
    using assms(1) splitRuns_single [OF n] by (simp add: searchTerms_def toLowerCase_def)
qed

lemma searchTerms_two:
  assumes "t1 \<noteq> []" and "t2 \<noteq> []"
    and "\<forall>c\<in>set t1. \<not> isSpaceComma c" and "\<forall>c\<in>set t2. \<not> isSpaceComma c"
    and "sep \<noteq> []" and "\<forall>c\<in>set sep. isSpaceComma c"
  shows "searchTerms (t1 @ sep @ t2) = [toLowerCase t1, toLowerCase t2]"
proof -
  have n1: "\<forall>c\<in>set (toLowerCase t1). \<not> isSpaceComma c"
    using assms(3) by (simp add: toLowerCase_def)
  have n2: "\<forall>c\<in>set (toLowerCase t2). \<not> isSpaceComma c"
    using assms(4) by (simp add: toLowerCase_def)
  have s: "toLowerCase sep \<noteq> []" "\<forall>c\<in>set (toLowerCase sep). isSpaceComma c"
    using assms(5,6) by (simp_all add: toLowerCase_def)
  have "trim (toLowerCase t1) = toLowerCase t1" "trim (toLowerCase t2) = toLowerCase t2"
    using n1 n2 by (simp_all add: trim_no_space isSpaceComma_def)
  moreover have "splitRuns isSpaceComma (toLowerCase (t1 @ sep @ t2))
      = [toLowerCase t1, toLowerCase t2]"
    using splitRuns_two [OF n1 n2 s] by (simp add: toLowerCase_def)
  ultimately show ?thesis
    using assms(1,2) by (simp add: searchTerms_def toLowerCase_def)
qed

text \<open>
  C1. Two terms \<open>t1\<close> and \<open>t2\<close> (non-empty, free of whitespace and commas) separated by a
  run \<open>sep\<close> of whitespace and commas: the query \<open>t1 sep t2\<close> returns the rooms that the
  query \<open>t1\<close> and the query \<open>t2\<close> both return, in the order of the query \<open>t1\<close>; and the
  empty query returns all the rooms of the dataset.
\<close>

theorem searchRoomsByTags_two_terms:
  assumes "t1 \<noteq> []" and "t2 \<noteq> []"
    and "\<forall>c\<in>set t1. \<not> isSpaceComma c" and "\<forall>c\<in>set t2. \<not> isSpaceComma c"
    and "sep \<noteq> []" and "\<forall>c\<in>set sep. isSpaceComma c"
  shows "set (searchRoomsByTags st (t1 @ sep @ t2))
           = set (searchRoomsByTags st t1) \<inter> set (searchRoomsByTags st t2)
         \<and> searchRoomsByTags st (t1 @ sep @ t2)
           = filter (\<lambda>r. r \<in> set (searchRoomsByTags st t2)) (searchRoomsByTags st t1)
         \<and> searchRoomsByTags st [] = processedData st"
proof -
  have two: "searchRoomsByTags st (t1 @ sep @ t2)
      = filter (\<lambda>r. roomMatches st [toLowerCase t1] r \<and> roomMatches st [toLowerCase t2] r)
          (processedData st)"
  proof -
    have "roomMatches st [toLowerCase t1, toLowerCase t2]
        = (\<lambda>r. roomMatches st [toLowerCase t1] r \<and> roomMatches st [toLowerCase t2] r)"
      by (simp add: roomMatches_def fun_eq_iff)
    then show ?thesis
      using assms(1) searchTerms_two [OF assms]
      by (cases "processedData st = []") (simp_all add: searchRoomsByTags_def)
  qed
  have one1: "searchRoomsByTags st t1 = filter (roomMatches st [toLowerCase t1]) (processedData st)"
    using assms(1) searchTerms_single [OF assms(1,3)]
    by (cases "processedData st = []") (auto simp: searchRoomsByTags_def)
  have one2: "searchRoomsByTags st t2 = filter (roomMatches st [toLowerCase t2]) (processedData st)"
    using assms(2) searchTerms_single [OF assms(2,4)]
    by (cases "processedData st = []") (auto simp: searchRoomsByTags_def)
  have "searchRoomsByTags st (t1 @ sep @ t2)
      = filter (\<lambda>r. r \<in> set (searchRoomsByTags st t2)) (searchRoomsByTags st t1)"
    unfolding two one1 one2 by (auto intro: filter_cong)
  moreover have "set (searchRoomsByTags st (t1 @ sep @ t2))
      = set (searchRoomsByTags st t1) \<inter> set (searchRoomsByTags st t2)"
    unfolding two one1 one2 by auto
  moreover have "searchRoomsByTags st [] = processedData st"
    by (simp add: searchRoomsByTags_def)
  ultimately show ?thesis by blast
qed

theorem searchRoomsByTags_two_terms_witness:
  "searchRoomsByTags exampleState ''4 Radiology'' = [exampleRoom]
   \<and> set (searchRoomsByTags exampleState ''4 Radiology'')
       = set (searchRoomsByTags exampleState ''4'') \<inter> set (searchRoomsByTags exampleState ''Radiology'')
   \<and> searchRoomsByTags exampleState ''radiology, orthopedics'' = []
   \<and> set (searchRoomsByTags exampleState ''radiology, orthopedics'')
       = set (searchRoomsByTags exampleState ''radiology'')
         \<inter> set (searchRoomsByTags exampleState ''orthopedics'')"
proof -
  have a: "set (searchRoomsByTags exampleState (''4'' @ '' '' @ ''Radiology''))
      = set (searchRoomsByTags exampleState ''4'') \<inter> set (searchRoomsByTags exampleState ''Radiology'')"
    by (rule searchRoomsByTags_two_terms [THEN conjunct1])
      (simp_all add: isSpaceComma_def isSpace_def)
  have b: "set (searchRoomsByTags exampleState (''radiology'' @ '', '' @ ''orthopedics''))
      = set (searchRoomsByTags exampleState ''radiology'')
        \<inter> set (searchRoomsByTags exampleState ''orthopedics'')"
    by (rule searchRoomsByTags_two_terms [THEN conjunct1])
      (simp_all add: isSpaceComma_def isSpace_def)
  have c: "searchRoomsByTags exampleState ''4 Radiology'' = [exampleRoom]"
    by code_simp
  have d: "searchRoomsByTags exampleState ''radiology, orthopedics'' = []"
    by code_simp
  show ?thesis
    using a b c d by simp
qed

text \<open>
  C2, as the claim states it, fails: the term \<open>4-radiology\<close> has the sub-words \<open>4\<close> and
  \<open>radiology\<close>, the only one longer than one character is a tag of the example room, and
  the term does not match the room.
\<close>

theorem compound_term_short_word_counterexample:
  "(str_includes ''4-radiology'' ''-'' \<or> str_includes ''4-radiology'' '' '')
   \<and> longSubWordsFound (createUnifiedTags exampleState exampleRoom) ''4-radiology''
   \<and> \<not> termMatches (createUnifiedTags exampleState exampleRoom) ''4-radiology''"
  by code_simp

text \<open>
  C2, amended. A term with a hyphen or a space matches the tags of a room iff some tag
  satisfies one of the rules 1 to 3 (equality, eligible prefix, eligible substring), or
  every sub-word of the term is longer than one character and occurs in some tag. So the
  term matches whenever all its sub-words are longer than one character and occur in
  tags, and a sub-word of at most one character makes the compound rule fail.
\<close>

theorem compound_term_matching:
  assumes "str_includes searchTerm ''-'' \<or> str_includes searchTerm '' ''"
  shows "termMatches roomTags searchTerm \<longleftrightarrow>
           list_ex (\<lambda>tag. tag = searchTerm
                      \<or> startsWith tag searchTerm
                          \<and> (length searchTerm \<ge> 2 \<or> startsWithDigit searchTerm)
                      \<or> length searchTerm \<ge> 3 \<and> str_includes tag searchTerm) roomTags
           \<or> list_all (\<lambda>word. length word > 1 \<and> list_ex (\<lambda>t. str_includes t word) roomTags)
                (splitRuns isSpaceHyphen searchTerm)"
proof -
  let ?compound = "list_all (\<lambda>word. length word > 1 \<and> list_ex (\<lambda>t. str_includes t word) roomTags)
      (splitRuns isSpaceHyphen searchTerm)"
  have nonempty: "roomTags \<noteq> []" if ?compound
  proof -
    obtain w ws where "splitRuns isSpaceHyphen searchTerm = w # ws"
      using splitRuns_not_Nil [of isSpaceHyphen searchTerm] by (cases "splitRuns isSpaceHyphen searchTerm") auto
    with that have "list_ex (\<lambda>t. str_includes t w) roomTags" by simp
    then show ?thesis by auto
  qed
  show ?thesis
  proof (cases ?compound)
    case True
    then obtain tag where "tag \<in> set roomTags"
      using nonempty by (cases roomTags) auto
    then have "termMatches roomTags searchTerm"
      using True assms by (auto simp: termMatches_def tagMatches_def list_ex_iff)
    then show ?thesis using True by simp
  next
    case False
    then show ?thesis
      using assms by (auto simp: termMatches_def tagMatches_def list_ex_iff)
  qed
qed

theorem compound_term_matching_witness:
  "(str_includes ''main-radiology'' ''-'' \<or> str_includes ''main-radiology'' '' '')
   \<and> termMatches (createUnifiedTags exampleState exampleRoom) ''main-radiology''
   \<and> list_all (\<lambda>word. length word > 1
                \<and> list_ex (\<lambda>t. str_includes t word) (createUnifiedTags exampleState exampleRoom))
       (splitRuns isSpaceHyphen ''main-radiology'')"
proof -
  have h: "str_includes ''main-radiology'' ''-'' \<or> str_includes ''main-radiology'' '' ''"
    by simp
  have c: "list_all (\<lambda>word. length word > 1
                \<and> list_ex (\<lambda>t. str_includes t word) (createUnifiedTags exampleState exampleRoom))
       (splitRuns isSpaceHyphen ''main-radiology'')"
    by code_simp
  have "termMatches (createUnifiedTags exampleState exampleRoom) ''main-radiology''"
    using compound_term_matching [OF h, of "createUnifiedTags exampleState exampleRoom"] c
    by blast
  then show ?thesis
    using h c by blast
qed

text \<open>
  C3. With a non-empty list of tag filters, \<open>data_getFilteredData\<close> returns, and stores as
  the current view, the result of \<open>searchRoomsByTags\<close> on the query joined with the tag
  filters; and there is a state in which a room of the result fails the building filter
  and the floor filter.
\<close>

theorem data_getFilteredData_tag_filters:
  "(filterTags (activeFilters st) \<noteq> [] \<longrightarrow>
      fst (data_getFilteredData st) = searchRoomsByTags st (combinedQuery st)
      \<and> currentFilteredData (snd (data_getFilteredData st)) = searchRoomsByTags st (combinedQuery st))
   \<and> (\<exists>st' r. filterTags (activeFilters st') \<noteq> []
         \<and> filterBuilding (activeFilters st') \<noteq> [] \<and> filterFloor (activeFilters st') \<noteq> []
         \<and> r \<in> set (fst (data_getFilteredData st'))
         \<and> building r \<noteq> filterBuilding (activeFilters st')
         \<and> String (floor r) \<noteq> filterFloor (activeFilters st'))"
proof -
  have "filterTags (activeFilters filteredExampleState) \<noteq> []
      \<and> filterBuilding (activeFilters filteredExampleState) \<noteq> []
      \<and> filterFloor (activeFilters filteredExampleState) \<noteq> []
      \<and> exampleRoom \<in> set (fst (data_getFilteredData filteredExampleState))
      \<and> building exampleRoom \<noteq> filterBuilding (activeFilters filteredExampleState)
      \<and> String (floor exampleRoom) \<noteq> filterFloor (activeFilters filteredExampleState)"
    by code_simp
  then have "\<exists>st' r. filterTags (activeFilters st') \<noteq> []
         \<and> filterBuilding (activeFilters st') \<noteq> [] \<and> filterFloor (activeFilters st') \<noteq> []
         \<and> r \<in> set (fst (data_getFilteredData st'))
         \<and> building r \<noteq> filterBuilding (activeFilters st')
         \<and> String (floor r) \<noteq> filterFloor (activeFilters st')"
    by blast
  moreover have "filterTags (activeFilters st) \<noteq> [] \<longrightarrow>
      fst (data_getFilteredData st) = searchRoomsByTags st (combinedQuery st)
      \<and> currentFilteredData (snd (data_getFilteredData st)) = searchRoomsByTags st (combinedQuery st)"
    by (simp add: data_getFilteredData_def Let_def)
  ultimately show ?thesis by blast
qed

theorem data_getFilteredData_tag_filters_witness:
  "filterTags (activeFilters filteredExampleState) \<noteq> []
   \<and> combinedQuery filteredExampleState = ''4101 radiology''
   \<and> fst (data_getFilteredData filteredExampleState)
       = searchRoomsByTags filteredExampleState ''4101 radiology''
   \<and> fst (data_getFilteredData filteredExampleState) = [exampleRoom]"
proof -
  have h: "filterTags (activeFilters filteredExampleState) \<noteq> []"
    by (simp add: filteredExampleState_def)
  have q: "combinedQuery filteredExampleState = ''4101 radiology''"
    by code_simp
  have r: "searchRoomsByTags filteredExampleState ''4101 radiology'' = [exampleRoom]"
    by code_simp
  have "fst (data_getFilteredData filteredExampleState)
      = searchRoomsByTags filteredExampleState (combinedQuery filteredExampleState)"
    using data_getFilteredData_tag_filters [of filteredExampleState] h by blast
  then show ?thesis
    using h q r by simp
qed

section \<open>The text encoding of sessions\<close>
























section \<open>Merging\<close>

text \<open>
  C10, as the claim states it, fails: for the code of two spaces, which has no mapping,
  \<open>normalizeAbbreviation\<close> returns the two spaces and not the empty string.
\<close>

theorem normalizeAbbreviation_blank_counterexample:
  "whitespaceOnly ''  ''
   \<and> fst (normalizeAbbreviation exampleEnv emptyState ''  '' Map.empty) = ''  ''
   \<and> fst (normalizeAbbreviation exampleEnv emptyState ''  '' Map.empty) \<noteq> []"
  by (simp add: whitespaceOnly_def isSpace_def normalizeAbbreviation_def exampleEnv_def
      emptyState_def dictGet_def)

text \<open>
  C10, amended. For a code that is empty or consists of whitespace the counter is left
  unchanged; the empty code gives the empty string; a non-empty code of whitespace gives
  its user override if it has one, else its built-in mapping if it has one, else the
  code itself.
\<close>

theorem normalizeAbbreviation_blank:
  assumes "whitespaceOnly abbr"
  shows "snd (normalizeAbbreviation e st abbr counter) = counter
         \<and> (abbr = [] \<longrightarrow> fst (normalizeAbbreviation e st abbr counter) = [])
         \<and> (abbr \<noteq> [] \<longrightarrow> fst (normalizeAbbreviation e st abbr counter) =
              (if dictGet (customAbbreviationMappings st) abbr \<noteq> []
                 then dictGet (customAbbreviationMappings st) abbr
               else if dictGet (abbreviationMap e) abbr \<noteq> [] then dictGet (abbreviationMap e) abbr
               else abbr))"
  using assms by (simp add: normalizeAbbreviation_def)

theorem normalizeAbbreviation_blank_witness:
  "whitespaceOnly [] \<and> whitespaceOnly [CHR 0x20, CHR 0x09]
   \<and> normalizeAbbreviation exampleEnv emptyState [] [''XYZ'' \<mapsto> 1] = ([], [''XYZ'' \<mapsto> 1])
   \<and> normalizeAbbreviation exampleEnv emptyState [CHR 0x20, CHR 0x09] [''XYZ'' \<mapsto> 1]
       = ([CHR 0x20, CHR 0x09], [''XYZ'' \<mapsto> 1])"
proof -
  have h: "whitespaceOnly []" "whitespaceOnly [CHR 0x20, CHR 0x09]"
    by (simp_all add: whitespaceOnly_def isSpace_def)
  have d: "dictGet (customAbbreviationMappings emptyState) [CHR 0x20, CHR 0x09] = []"
    "dictGet (abbreviationMap exampleEnv) [CHR 0x20, CHR 0x09] = []"
    by (simp_all add: dictGet_def emptyState_def exampleEnv_def)
  show ?thesis
    using h d normalizeAbbreviation_blank [OF h(1), of exampleEnv emptyState "[''XYZ'' \<mapsto> 1]"]
      normalizeAbbreviation_blank [OF h(2), of exampleEnv emptyState "[''XYZ'' \<mapsto> 1]"]
    by (simp add: prod_eq_iff)
qed

text \<open>
  C9 fails on the code: a batch counts the unknown codes of its own rows from zero, and
  its counts replace the counts the state holds for the same codes. Two occurrences of
  \<open>XYZ\<close> in one batch give the count 2, one occurrence in each of two batches gives 1.
\<close>

theorem unmapped_counter_overwritten_by_next_batch:
  "unmappedAbbreviations (processRoomData exampleEnv [exampleRow] emptyState) ''XYZ'' = Some 1
   \<and> unmappedAbbreviations
        (processRoomData exampleEnv [exampleRow] (processRoomData exampleEnv [exampleRow] emptyState))
        ''XYZ'' = Some 1
   \<and> unmappedAbbreviations (processRoomData exampleEnv [exampleRow, exampleRow] emptyState) ''XYZ''
       = Some 2"
  by code_simp

lemma processedData_createSearchIndex [simp]:
  "processedData (createSearchIndex st) = processedData st"
  by (simp add: createSearchIndex_def buildAutocompleteList_def)

lemma customTags_createSearchIndex [simp]:
  "customTags (createSearchIndex st) = customTags st"
  by (simp add: createSearchIndex_def buildAutocompleteList_def)

lemma processedData_addError [simp]: "processedData (addError m st) = processedData st"
  by (simp add: addError_def)

lemma customTags_addError [simp]: "customTags (addError m st) = customTags st"
  by (simp add: addError_def)

lemma processedData_clearErrors [simp]: "processedData (clearErrors st) = processedData st"
  by (simp add: clearErrors_def)

lemma customTags_clearErrors [simp]: "customTags (clearErrors st) = customTags st"
  by (simp add: clearErrors_def)





lemma processedData_processOccupant [simp]:
  "processedData (processOccupant occ st) = processedData st"
  by (simp add: processOccupant_def Let_def split: option.split)

lemma processedData_processOccupantData [simp]:
  "processedData (processOccupantData occs st) = processedData st"
proof -
  have "processedData (fold processOccupant occs st) = processedData st"
    by (induction occs arbitrary: st) simp_all
  then show ?thesis by (simp add: processOccupantData_def)
qed

lemma processedData_importTag [simp]:
  "processedData (current (importTag e key t prog)) = processedData (current prog)"
  by (simp add: importTag_def Let_def)

lemma processedData_fold_importTag [simp]:
  "processedData (current (fold (importTag e key) ts prog)) = processedData (current prog)"
  by (induction ts arbitrary: prog) simp_all

lemma processedData_importEntry [simp]:
  "processedData (current (importEntry e refs entry prog)) = processedData (current prog)"
  by (simp add: importEntry_def Let_def split: option.split)

lemma processedData_fold_importEntry [simp]:
  "processedData (current (fold (importEntry e refs) entries prog)) = processedData (current prog)"
  by (induction entries arbitrary: prog) simp_all

lemma processedData_importCustomTags [simp]:
  "processedData (current (importCustomTags e importData st)) = processedData st"
  by (simp add: importCustomTags_def Let_def split: option.split)

lemma processedData_data_getFilteredData [simp]:
  "processedData (snd (data_getFilteredData st)) = processedData st"
  by (simp add: data_getFilteredData_def Let_def)




section \<open>Import of custom tags\<close>












text \<open>
  C8 fails on the code: the import compares the names of tags with \<open>===\<close>. The example
  room has the tag \<open>lab\<close>; the import of the tag \<open>Lab\<close> for it adds the tag and counts it.
\<close>

theorem importCustomTags_adds_duplicate_of_other_case:
  "toLowerCase ''Lab'' = toLowerCase ''lab''
   \<and> map name (listGet (customTags labState) ''0'') = [''lab'']
   \<and> map name (listGet (customTags (current (importCustomTags exampleEnv labTagsFile labState))) ''0'')
       = [''lab'', ''Lab'']
   \<and> importedCount (importCustomTags exampleEnv labTagsFile labState) = 1"
  by code_simp

section \<open>Session export and import\<close>



section \<open>Decimal numerals\<close>

lemma natToString_not_Nil: "natToString n \<noteq> []"
  by (subst natToString.simps) simp

lemma digitChar_isDigit: "d < 10 \<Longrightarrow> isDigit (digitChar d)"
  unfolding digitChar_def isDigit_def by (rule nth_mem) simp

lemma digitChar_inj: "d < 10 \<Longrightarrow> d' < 10 \<Longrightarrow> digitChar d = digitChar d' \<Longrightarrow> d = d'"
proof -
  assume "d < 10" "d' < 10" and eq: "digitChar d = digitChar d'"
  have "distinct ''0123456789''" by simp
  moreover have "d < length ''0123456789''" "d' < length ''0123456789''"
    using \<open>d < 10\<close> \<open>d' < 10\<close> by simp_all
  ultimately show ?thesis
    using eq unfolding digitChar_def by (simp only: nth_eq_iff_index_eq)
qed

lemma natToString_digits: "c \<in> set (natToString n) \<Longrightarrow> isDigit c"
proof (induction n arbitrary: c rule: natToString.induct)
  case (1 n)
  show ?case
  proof (cases "n < 10")
    case True
    then show ?thesis
      using "1.prems" by (subst (asm) natToString.simps) (simp add: digitChar_isDigit)
  next
    case False
    then have "c \<in> set (natToString (n div 10)) \<or> c = digitChar (n mod 10)"
      using "1.prems" by (subst (asm) natToString.simps) auto
    then show ?thesis
      using "1.IH" False by (auto simp: digitChar_isDigit)
  qed
qed

lemma natToString_inj: "natToString n = natToString m \<Longrightarrow> n = m"
proof (induction n arbitrary: m rule: natToString.induct)
  case (1 n)
  show ?case
  proof (cases "n < 10")
    case n: True
    show ?thesis
    proof (cases "m < 10")
      case True
      then show ?thesis
        using n "1.prems" digitChar_inj [of n m]
        by (simp add: natToString.simps [of n] natToString.simps [of m])
    next
      case False
      then show ?thesis
        using n "1.prems" natToString_not_Nil [of "m div 10"]
        by (simp add: natToString.simps [of n] natToString.simps [of m])
    qed
  next
    case n: False
    show ?thesis
    proof (cases "m < 10")
      case True
      then show ?thesis
        using n "1.prems" natToString_not_Nil [of "n div 10"]
        by (simp add: natToString.simps [of n] natToString.simps [of m])
    next
      case False
      then have "natToString (n div 10) = natToString (m div 10)"
        and d: "digitChar (n mod 10) = digitChar (m mod 10)"
        using n "1.prems" by (simp_all add: natToString.simps [of n] natToString.simps [of m])
      then have "n div 10 = m div 10"
        using "1.IH" n by simp
      moreover have "n mod 10 = m mod 10"
        using d digitChar_inj [of "n mod 10" "m mod 10"] by simp
      ultimately show ?thesis
        by (metis div_mult_mod_eq)
    qed
  qed
qed


lemma natToString_head:
  assumes "\<not> isDigit c"
  shows "natToString n \<noteq> c # cs" and "c # cs \<noteq> natToString n"
proof -
  show "natToString n \<noteq> c # cs"
  proof
    assume "natToString n = c # cs"
    then have "c \<in> set (natToString n)"
      by simp
    then show False
      using assms natToString_digits by blast
  qed
  then show "c # cs \<noteq> natToString n"
    by (rule not_sym)
qed

lemma natToString_neq: "n \<noteq> m \<Longrightarrow> natToString n \<noteq> natToString m"
  using natToString_inj by blast

lemma toLower_digit: "isDigit c \<Longrightarrow> toLower c = c"
  by (cases c) (auto simp: isDigit_def isUpperCase_def)

lemma toLowerCase_natToString: "toLowerCase (natToString n) = natToString n"
  by (simp add: toLowerCase_def map_idI natToString_digits toLower_digit)

lemma natToString_no_colon: "CHR '':'' \<notin> set (natToString n)"
  using natToString_digits [of "CHR '':''" n] by (auto simp: isDigit_def)

section \<open>Autocomplete vocabulary\<close>

text \<open>
  What the cap does guarantee: the vocabulary is sorted and free of duplicates, and it has
  at most one entry more than the cap.
\<close>

lemma setAdd_invariant:
  "distinct xs \<Longrightarrow> distinct (setAdd x xs)" "length (setAdd x xs) \<le> length xs + 1"
  by (simp_all add: setAdd_def)

lemma addSuggestion_invariant:
  assumes "distinct S" and "length S \<le> Suc limit"
  shows "distinct (addSuggestion limit tag S) \<and> length (addSuggestion limit tag S) \<le> Suc limit"
proof (cases "length S < limit")
  case True
  have "length (setAdd v (setAdd tag S)) \<le> Suc limit" for v
    using True setAdd_invariant(2) [of v "setAdd tag S"] setAdd_invariant(2) [of tag S] by linarith
  moreover have "length (setAdd tag S) \<le> Suc limit"
    using True setAdd_invariant(2) [of tag S] by linarith
  ultimately show ?thesis
    using assms(1) True
    by (auto simp: addSuggestion_def Let_def setAdd_invariant(1) split: list.split)
next
  case False
  then show ?thesis
    using assms by (simp add: addSuggestion_def)
qed

lemma fold_addSuggestion_invariant:
  assumes "distinct S" and "length S \<le> Suc limit"
  shows "distinct (fold (addSuggestion limit) tagList S)
         \<and> length (fold (addSuggestion limit) tagList S) \<le> Suc limit"
  using assms
proof (induction tagList arbitrary: S)
  case Nil
  then show ?case by simp
next
  case (Cons tag tagList)
  have "distinct (addSuggestion limit tag S) \<and> length (addSuggestion limit tag S) \<le> Suc limit"
    using Cons.prems by (rule addSuggestion_invariant)
  then show ?case
    using Cons.IH by simp
qed

lemma addRoomSuggestions_invariant:
  assumes "distinct S" and "length S \<le> Suc limit"
  shows "distinct (addRoomSuggestions limit st room S)
         \<and> length (addRoomSuggestions limit st room S) \<le> Suc limit"
proof -
  let ?added = "fold (addSuggestion limit) (createUnifiedTags st room) S"
  have a: "distinct ?added" "length ?added \<le> Suc limit"
    using fold_addSuggestion_invariant [OF assms] by simp_all
  have "length (setAdd x ?added) \<le> Suc limit" if "length ?added < limit" for x
    using that setAdd_invariant(2) [of x ?added] by linarith
  then show ?thesis
    using assms a by (simp add: addRoomSuggestions_def Let_def setAdd_invariant(1))
qed

lemma fold_addRoomSuggestions_invariant:
  assumes "distinct S" and "length S \<le> Suc limit"
  shows "distinct (fold (addRoomSuggestions limit st) rooms S)
         \<and> length (fold (addRoomSuggestions limit st) rooms S) \<le> Suc limit"
  using assms
proof (induction rooms arbitrary: S)
  case Nil
  then show ?case by simp
next
  case (Cons room rooms)
  have "distinct (addRoomSuggestions limit st room S)
      \<and> length (addRoomSuggestions limit st room S) \<le> Suc limit"
    using Cons.prems by (rule addRoomSuggestions_invariant)
  then show ?case
    using Cons.IH by simp
qed

lemma buildUnifiedAutocomplete_bounds:
  "sorted (buildUnifiedAutocomplete st) \<and> distinct (buildUnifiedAutocomplete st)
   \<and> length (buildUnifiedAutocomplete st) \<le> 5001"
proof -
  have "distinct (fold (addRoomSuggestions 5000 st) (processedData st) [])
      \<and> length (fold (addRoomSuggestions 5000 st) (processedData st) []) \<le> Suc 5000"
    by (rule fold_addRoomSuggestions_invariant) simp_all
  then show ?thesis
    by (simp add: buildUnifiedAutocomplete_def Let_def)
qed


lemma fold_setAdd_distinct:
  "distinct xs \<Longrightarrow> set xs \<inter> set acc = {} \<Longrightarrow> fold setAdd xs acc = acc @ xs"
  by (induction xs arbitrary: acc) (auto simp: setAdd_def)

lemma newSet_distinct: "distinct xs \<Longrightarrow> newSet xs = xs"
  by (simp add: newSet_def fold_setAdd_distinct)

lemma splitOnFrom_no_sep: "sep \<notin> set t \<Longrightarrow> splitOnFrom sep piece t = [rev piece @ t]"
  by (induction t arbitrary: piece) auto

lemma str_includes_single: "str_includes s [c] \<longleftrightarrow> c \<in> set s"
  by (induction s) auto

lemma qualified_value:
  assumes "CHR '':'' \<notin> set v"
  shows "take 2 (splitOn CHR '':'' (''room:'' @ v)) = [''room'', v]"
    and "str_includes (''room:'' @ v) '':''"
    and "\<not> str_includes v '':''"
  using assms by (simp_all add: splitOn_def splitOnFrom_no_sep str_includes_single)


lemma number_not_base:
  "''main a'' \<noteq> natToString i" "''building:main a'' \<noteq> natToString i"
  "''main'' \<noteq> natToString i" "''floor:G'' \<noteq> natToString i"
  "''fG'' \<noteq> natToString i" "''level:G'' \<noteq> natToString i"
  "''G'' \<noteq> natToString i" "''B'' \<noteq> natToString i"
  "''floor:B'' \<noteq> natToString i" "''room:'' @ v \<noteq> natToString i"
proof -
  have m: "\<not> isDigit CHR ''m''" and b: "\<not> isDigit CHR ''b''" and f: "\<not> isDigit CHR ''f''"
    and l: "\<not> isDigit CHR ''l''" and G: "\<not> isDigit CHR ''G''" and B: "\<not> isDigit CHR ''B''"
    and r: "\<not> isDigit CHR ''r''"
    by (simp_all add: isDigit_def)
  show "''main a'' \<noteq> natToString i" "''main'' \<noteq> natToString i"
    by (rule natToString_head(2) [OF m])+
  show "''building:main a'' \<noteq> natToString i"
    by (rule natToString_head(2) [OF b])
  show "''floor:G'' \<noteq> natToString i" "''fG'' \<noteq> natToString i" "''floor:B'' \<noteq> natToString i"
    by (rule natToString_head(2) [OF f])+
  show "''level:G'' \<noteq> natToString i"
    by (rule natToString_head(2) [OF l])
  show "''G'' \<noteq> natToString i"
    by (rule natToString_head(2) [OF G])
  show "''B'' \<noteq> natToString i"
    by (rule natToString_head(2) [OF B])
  show "''room:'' @ v \<noteq> natToString i"
    using natToString_head(2) [OF r, of "''oom:'' @ v" i] by simp
qed

lemma createUnifiedTags_numberedRoom:
  assumes "customTags st = Map.empty" and "staffTags st = Map.empty"
  shows "createUnifiedTags st (numberedRoom i) =
           [''main a'', ''building:main a'', ''main'', ''floor:G'', ''fG'', ''level:G'', ''G'']
           @ numberedSuggestions i"
proof -
  let ?s = "natToString i"
  have lower: "toLowerCase ''Main A'' = ''main a''"
    by (simp add: toLowerCase_def isUpperCase_def)
  have words: "wordsLonger (Suc 0) isSpace ''main a'' = [''main'']"
    by (simp add: wordsLonger_def splitRuns_def isSpace_def)
  have "createUnifiedTags st (numberedRoom i) =
      newSet [''main a'', ''building:main a'', ''main'', ''floor:G'', ''fG'', ''level:G'', ''G'',
        ?s, ''room:'' @ ?s]"
    using assms natToString_not_Nil [of i]
    by (simp add: createUnifiedTags_def numberedRoom_def lower words listGet_def
        toLowerCase_natToString)
  also have "\<dots> = [''main a'', ''building:main a'', ''main'', ''floor:G'', ''fG'', ''level:G'', ''G'',
        ?s, ''room:'' @ ?s]"
    by (rule newSet_distinct) (simp add: number_not_base)
  finally show ?thesis
    by (simp add: numberedSuggestions_def)
qed


lemma setAdd_old: "x \<in> set xs \<Longrightarrow> setAdd x xs = xs"
  by (simp add: setAdd_def)

lemma setAdd_new: "x \<notin> set xs \<Longrightarrow> setAdd x xs = xs @ [x]"
  by (simp add: setAdd_def)

lemma addSuggestion_plain:
  "length S < limit \<Longrightarrow> \<not> str_includes tag '':'' \<Longrightarrow> addSuggestion limit tag S = setAdd tag S"
  by (simp add: addSuggestion_def)

lemma addSuggestion_qualified:
  "length S < limit \<Longrightarrow> str_includes tag '':'' \<Longrightarrow> take 2 (splitOn CHR '':'' tag) = [q, v] \<Longrightarrow>
     addSuggestion limit tag S = setAdd v (setAdd tag S)"
  by (simp add: addSuggestion_def)

lemma addSuggestion_full: "\<not> length S < limit \<Longrightarrow> addSuggestion limit tag S = S"
  by (simp add: addSuggestion_def)

text \<open>The tags of the building and of the floor \<open>G\<close> add nothing to a vocabulary that has them.\<close>

lemma base_tags_known:
  assumes "set baseSuggestions \<subseteq> set S" and "length S < limit"
  shows "fold (addSuggestion limit)
           [''main a'', ''building:main a'', ''main'', ''floor:G'', ''fG'', ''level:G'', ''G''] S = S"
proof -
  have mem: "''main a'' \<in> set S" "''building:main a'' \<in> set S" "''main'' \<in> set S"
    "''floor:G'' \<in> set S" "''G'' \<in> set S" "''fG'' \<in> set S" "''level:G'' \<in> set S"
    using assms(1) by (simp_all add: baseSuggestions_def)
  have 1: "addSuggestion limit ''main a'' S = S"
    using assms(2) mem by (simp add: addSuggestion_plain setAdd_old)
  have 2: "addSuggestion limit ''building:main a'' S = S"
    using assms(2) mem
    by (subst addSuggestion_qualified [where q = "''building''" and v = "''main a''"])
      (simp_all add: splitOn_def setAdd_old)
  have 3: "addSuggestion limit ''main'' S = S"
    using assms(2) mem by (simp add: addSuggestion_plain setAdd_old)
  have 4: "addSuggestion limit ''floor:G'' S = S"
    using assms(2) mem
    by (subst addSuggestion_qualified [where q = "''floor''" and v = "''G''"])
      (simp_all add: splitOn_def setAdd_old)
  have 5: "addSuggestion limit ''fG'' S = S"
    using assms(2) mem by (simp add: addSuggestion_plain setAdd_old)
  have 6: "addSuggestion limit ''level:G'' S = S"
    using assms(2) mem
    by (subst addSuggestion_qualified [where q = "''level''" and v = "''G''"])
      (simp_all add: splitOn_def setAdd_old)
  have 7: "addSuggestion limit ''G'' S = S"
    using assms(2) mem by (simp add: addSuggestion_plain setAdd_old)
  show ?thesis
    by (simp add: 1 2 3 4 5 6 7)
qed

lemma number_tags_new:
  assumes "natToString i \<notin> set S" and "''room:'' @ natToString i \<notin> set S"
    and "length S + 1 < limit"
  shows "fold (addSuggestion limit) (numberedSuggestions i) S = S @ numberedSuggestions i"
proof -
  let ?s = "natToString i"
  have c: "CHR '':'' \<notin> set ?s"
    by (rule natToString_no_colon)
  have 1: "addSuggestion limit ?s S = S @ [?s]"
    using assms by (simp add: addSuggestion_plain qualified_value(3) [OF c] setAdd_new)
  have "addSuggestion limit (''room:'' @ ?s) (S @ [?s]) = setAdd ?s (setAdd (''room:'' @ ?s) (S @ [?s]))"
    using assms(3) qualified_value(1,2) [OF c]
    by (intro addSuggestion_qualified [where q = "''room''"]) simp_all
  also have "\<dots> = S @ [?s, ''room:'' @ ?s]"
    using assms(2) number_not_base(10) [of ?s i] by (simp add: setAdd_def)
  finally show ?thesis
    by (simp add: numberedSuggestions_def 1)
qed

lemma addRoomSuggestions_numbered:
  assumes "customTags st = Map.empty" and "staffTags st = Map.empty"
    and "set baseSuggestions \<subseteq> set S"
    and "natToString i \<notin> set S" and "''room:'' @ natToString i \<notin> set S"
    and "length S + 1 < limit"
  shows "addRoomSuggestions limit st (numberedRoom i) S = S @ numberedSuggestions i"
proof -
  have "fold (addSuggestion limit) (createUnifiedTags st (numberedRoom i)) S
      = S @ numberedSuggestions i"
    using assms(6) base_tags_known [OF assms(3), of limit] number_tags_new [OF assms(4,5,6)]
    by (simp add: createUnifiedTags_numberedRoom [OF assms(1,2)])
  moreover have "String (rmnbr (numberedRoom i)) \<in> set (S @ numberedSuggestions i)"
    by (simp add: numberedRoom_def numberedSuggestions_def)
  ultimately show ?thesis
    using assms(6) by (simp add: addRoomSuggestions_def Let_def setAdd_old)
qed


lemma addRoomSuggestions_first:
  assumes "customTags st = Map.empty" and "staffTags st = Map.empty" and "9 < limit"
  shows "addRoomSuggestions limit st (numberedRoom i) [] = baseSuggestions @ numberedSuggestions i"
proof -
  have b: "fold (addSuggestion limit)
      [''main a'', ''building:main a'', ''main'', ''floor:G'', ''fG'', ''level:G'', ''G''] []
      = baseSuggestions"
    using assms(3) by (simp add: addSuggestion_def setAdd_def splitOn_def baseSuggestions_def)
  have n: "fold (addSuggestion limit) (numberedSuggestions i) baseSuggestions
      = baseSuggestions @ numberedSuggestions i"
    using assms(3) number_not_base [where i = i]
    by (intro number_tags_new) (auto simp: baseSuggestions_def)
  have "fold (addSuggestion limit) (createUnifiedTags st (numberedRoom i)) []
      = baseSuggestions @ numberedSuggestions i"
    by (simp only: createUnifiedTags_numberedRoom [OF assms(1,2)] fold_append comp_apply b n)
  moreover have "String (rmnbr (numberedRoom i)) \<in> set (baseSuggestions @ numberedSuggestions i)"
    by (simp add: numberedRoom_def numberedSuggestions_def)
  moreover have "length (baseSuggestions @ numberedSuggestions i) < limit"
    using assms(3) by (simp add: baseSuggestions_def numberedSuggestions_def)
  ultimately show ?thesis
    using assms(3) by (simp add: addRoomSuggestions_def Let_def setAdd_old)
qed

lemma length_numberedSuggestions:
  "length (concat (map numberedSuggestions xs)) = 2 * length xs"
  by (induction xs) (simp_all add: numberedSuggestions_def)

lemma numbered_members:
  "x \<in> set (concat (map numberedSuggestions xs))
     \<longleftrightarrow> (\<exists>j\<in>set xs. x = natToString j \<or> x = ''room:'' @ natToString j)"
  by (auto simp: numberedSuggestions_def)

lemma fold_numbered:
  assumes "customTags st = Map.empty" and "staffTags st = Map.empty" and "2 * k + 9 < limit"
  shows "fold (addRoomSuggestions limit st) (map numberedRoom [0 ..< Suc k]) []
           = baseSuggestions @ concat (map numberedSuggestions [0 ..< Suc k])"
  using assms(3)
proof (induction k)
  case 0
  then show ?case
    using addRoomSuggestions_first [OF assms(1,2), of limit 0] by simp
next
  case (Suc k)
  let ?S = "baseSuggestions @ concat (map numberedSuggestions [0 ..< Suc k])"
  have IH: "fold (addRoomSuggestions limit st) (map numberedRoom [0 ..< Suc k]) [] = ?S"
    using Suc by simp
  have new1: "natToString (Suc k) \<notin> set ?S"
  proof -
    have "natToString (Suc k) \<notin> set baseSuggestions"
      using number_not_base [where i = "Suc k"] by (auto simp: baseSuggestions_def)
    moreover have "natToString (Suc k) \<noteq> natToString j" if "j < Suc k" for j
      using that by (intro natToString_neq) simp
    moreover have "natToString (Suc k) \<noteq> ''room:'' @ natToString j" for j
      using number_not_base(10) [of "natToString j" "Suc k"] by simp
    ultimately show ?thesis
      by (simp only: set_append Un_iff numbered_members) auto
  qed
  have new2: "''room:'' @ natToString (Suc k) \<notin> set ?S"
  proof -
    have "''room:'' @ natToString (Suc k) \<notin> set baseSuggestions"
      by (simp add: baseSuggestions_def)
    moreover have "''room:'' @ natToString (Suc k) \<noteq> ''room:'' @ natToString j" if "j < Suc k" for j
      using that natToString_neq [of "Suc k" j] by simp
    moreover have "''room:'' @ natToString (Suc k) \<noteq> natToString j" for j
      by (rule number_not_base(10))
    ultimately show ?thesis
      by (simp only: set_append Un_iff numbered_members) auto
  qed
  have len: "length ?S + 1 < limit"
    using Suc.prems
    by (simp add: length_numberedSuggestions baseSuggestions_def numberedSuggestions_def)
  have "fold (addRoomSuggestions limit st) (map numberedRoom [0 ..< Suc (Suc k)]) []
      = addRoomSuggestions limit st (numberedRoom (Suc k)) ?S"
    using IH by simp
  also have "\<dots> = ?S @ numberedSuggestions (Suc k)"
    using new1 new2 len by (intro addRoomSuggestions_numbered assms(1,2)) simp_all
  finally show ?case
    by simp
qed


lemma createUnifiedTags_basementRoom:
  assumes "customTags st = Map.empty" and "staffTags st = Map.empty"
  shows "createUnifiedTags st basementRoom =
           [''main a'', ''building:main a'', ''main'', ''floor:B'', ''fB'', ''level:B'', ''B'',
            ''b1'', ''room:b1'']"
proof -
  have lower: "toLowerCase ''Main A'' = ''main a''" "toLowerCase ''B1'' = ''b1''"
    by (simp_all add: toLowerCase_def isUpperCase_def)
  have words: "wordsLonger (Suc 0) isSpace ''main a'' = [''main'']"
    by (simp add: wordsLonger_def splitRuns_def isSpace_def)
  have "createUnifiedTags st basementRoom =
      newSet [''main a'', ''building:main a'', ''main'', ''floor:B'', ''fB'', ''level:B'', ''B'',
        ''b1'', ''room:b1'']"
    using assms
    by (simp add: createUnifiedTags_def basementRoom_def lower words listGet_def)
  also have "\<dots> = [''main a'', ''building:main a'', ''main'', ''floor:B'', ''fB'', ''level:B'', ''B'',
        ''b1'', ''room:b1'']"
    by (rule newSet_distinct) simp
  finally show ?thesis .
qed

text \<open>
  With one free place left, the tag \<open>floor:B\<close> and its value \<open>B\<close> are both added, and
  nothing after them.
\<close>

lemma addRoomSuggestions_basement:
  assumes "customTags st = Map.empty" and "staffTags st = Map.empty"
    and "set baseSuggestions \<subseteq> set S"
    and "''floor:B'' \<notin> set S" and "''B'' \<notin> set S"
    and "length S + 1 = limit"
  shows "addRoomSuggestions limit st basementRoom S = S @ [''floor:B'', ''B'']"
proof -
  have mem: "''main a'' \<in> set S" "''building:main a'' \<in> set S" "''main'' \<in> set S"
    using assms(3) by (simp_all add: baseSuggestions_def)
  have free: "length S < limit"
    using assms(6) by simp
  let ?T = "S @ [''floor:B'', ''B'']"
  have full: "\<not> length ?T < limit"
    using assms(6) by simp
  have 1: "addSuggestion limit ''main a'' S = S"
    using free mem by (simp add: addSuggestion_plain setAdd_old)
  have 2: "addSuggestion limit ''building:main a'' S = S"
    using free mem
    by (subst addSuggestion_qualified [where q = "''building''" and v = "''main a''"])
      (simp_all add: splitOn_def setAdd_old)
  have 3: "addSuggestion limit ''main'' S = S"
    using free mem by (simp add: addSuggestion_plain setAdd_old)
  have 4: "addSuggestion limit ''floor:B'' S = ?T"
    using free assms(4,5)
    by (subst addSuggestion_qualified [where q = "''floor''" and v = "''B''"])
      (simp_all add: splitOn_def setAdd_def)
  have rest: "addSuggestion limit tag ?T = ?T" for tag
    using full by (rule addSuggestion_full)
  have "fold (addSuggestion limit) (createUnifiedTags st basementRoom) S = ?T"
    by (simp only: createUnifiedTags_basementRoom [OF assms(1,2)] fold_simps 1 2 3 4 rest)
  then show ?thesis
    using free full by (simp add: addRoomSuggestions_def Let_def)
qed

text \<open>The vocabulary of the dataset before it is sorted, for any number of rooms on floor \<open>G\<close>.\<close>

lemma fold_overflow:
  assumes "customTags st = Map.empty" and "staffTags st = Map.empty"
  shows "fold (addRoomSuggestions (2 * k + 10) st) (map numberedRoom [0 ..< Suc k] @ [basementRoom]) []
           = baseSuggestions @ concat (map numberedSuggestions [0 ..< Suc k]) @ [''floor:B'', ''B'']"
proof -
  let ?S = "baseSuggestions @ concat (map numberedSuggestions [0 ..< Suc k])"
  have S: "fold (addRoomSuggestions (2 * k + 10) st) (map numberedRoom [0 ..< Suc k]) [] = ?S"
    by (rule fold_numbered [OF assms]) simp
  have n1: "''floor:B'' \<notin> set ?S"
  proof -
    have "''floor:B'' \<notin> set baseSuggestions"
      by (simp add: baseSuggestions_def)
    moreover have "''floor:B'' \<noteq> natToString j" "''floor:B'' \<noteq> ''room:'' @ natToString j" for j
      by (simp_all add: number_not_base)
    ultimately show ?thesis
      by (simp only: set_append Un_iff numbered_members) auto
  qed
  have n2: "''B'' \<notin> set ?S"
  proof -
    have "''B'' \<notin> set baseSuggestions"
      by (simp add: baseSuggestions_def)
    moreover have "''B'' \<noteq> natToString j" "''B'' \<noteq> ''room:'' @ natToString j" for j
      by (simp_all add: number_not_base)
    ultimately show ?thesis
      by (simp only: set_append Un_iff numbered_members) auto
  qed
  have len: "length ?S + 1 = 2 * k + 10"
    by (simp add: length_numberedSuggestions baseSuggestions_def numberedSuggestions_def)
  have "addRoomSuggestions (2 * k + 10) st basementRoom ?S = ?S @ [''floor:B'', ''B'']"
    using n1 n2 len by (intro addRoomSuggestions_basement assms) simp_all
  then show ?thesis
    by (simp only: fold_append comp_apply S fold_simps append_assoc)
qed

lemma length_fold_overflow:
  assumes "customTags st = Map.empty" and "staffTags st = Map.empty"
  shows "length (fold (addRoomSuggestions (2 * k + 10) st)
           (map numberedRoom [0 ..< Suc k] @ [basementRoom]) []) = 2 * k + 11"
  by (simp only: fold_overflow [OF assms])
    (simp add: length_numberedSuggestions baseSuggestions_def numberedSuggestions_def)


text \<open>
  C4 fails on the code: the vocabulary of this dataset has 5001 entries. It has 4999
  entries when the tag \<open>floor:B\<close> of the last room is reached; the tag is added, and its
  value \<open>B\<close> is added after it without a second look at the cap.
\<close>

theorem buildUnifiedAutocomplete_exceeds_cap:
  "length (processedData overflowState) = 2497
   \<and> length (buildUnifiedAutocomplete overflowState) = 5001"
proof -
  have e: "customTags overflowState = Map.empty" "staffTags overflowState = Map.empty"
    by (simp_all add: overflowState_def emptyState_def)
  have k: "(2496::nat) = Suc 2495" "(5000::nat) = 2 * 2495 + 10" "(5001::nat) = 2 * 2495 + 11"
    by simp_all
  have d: "processedData overflowState = map numberedRoom [0 ..< Suc 2495] @ [basementRoom]"
    unfolding overflowState_def k(1) by simp
  have "length (buildUnifiedAutocomplete overflowState)
      = length (fold (addRoomSuggestions (2 * 2495 + 10) overflowState)
          (map numberedRoom [0 ..< Suc 2495] @ [basementRoom]) [])"
    unfolding buildUnifiedAutocomplete_def Let_def d k(2) by (simp only: length_sort)
  also have "\<dots> = 2 * 2495 + 11"
    by (rule length_fold_overflow [OF e])
  finally have "length (buildUnifiedAutocomplete overflowState) = 5001"
    unfolding k(3) .
  moreover have "length (processedData overflowState) = 2497"
    unfolding d by (simp only: length_append length_map length_upt) simp
  ultimately show ?thesis
    by (rule conjI [rotated])
qed

end
